theory Spec2Isabelle
  imports Main "HOL-Library.Word"
begin

section \<open>Values exchanged with the provider\<close>

text \<open>
  A decoded JSON document, as Python's \<^verbatim>\<open>json\<close> module hands it to the program:
  \<^verbatim>\<open>None\<close>, a bool, a number, a str, a list or a dict. A dict keeps its items in
  insertion order, so it is an association list (keys distinct in every decoded
  document); \<open>map_of\<close> is the lookup \<^verbatim>\<open>obj[key]\<close>. Numbers are the integer codes of the
  provider's envelope. Python's \<^verbatim>\<open>None\<close> and JSON's \<^verbatim>\<open>null\<close> are the same value \<open>JNull\<close>,
  so a function that returns \<^verbatim>\<open>None\<close> for "not found" returns \<open>JNull\<close>.
\<close>

datatype json =
    JNull
  | JBool bool
  | JNum int
  | JStr string
  | JArr "json list"
  | JObj "(string \<times> json) list"

type_synonym dict = "(string \<times> json) list"

text \<open>Truth value of a Python object in a condition (\<^verbatim>\<open>if x:\<close>, \<^verbatim>\<open>not x\<close>).\<close>

fun truthy :: "json \<Rightarrow> bool" where
  "truthy JNull = False"
| "truthy (JBool b) = b"
| "truthy (JNum n) = (n \<noteq> 0)"
| "truthy (JStr s) = (s \<noteq> [])"
| "truthy (JArr xs) = (xs \<noteq> [])"
| "truthy (JObj kvs) = (kvs \<noteq> [])"

text \<open>\<^verbatim>\<open>x == n\<close> for an integer literal \<^verbatim>\<open>n\<close>: a bool compares as 0 or 1.\<close>

fun py_eq_int :: "json \<Rightarrow> int \<Rightarrow> bool" where
  "py_eq_int (JNum m) n = (m = n)"
| "py_eq_int (JBool b) n = ((if b then 1 else 0) = n)"
| "py_eq_int JNull n = False"
| "py_eq_int (JStr s) n = False"
| "py_eq_int (JArr xs) n = False"
| "py_eq_int (JObj kvs) n = False"

text \<open>\<^verbatim>\<open>d.get(key)\<close> and \<^verbatim>\<open>d.get(key, default)\<close>.\<close>

definition dict_get :: "dict \<Rightarrow> string \<Rightarrow> json" where
  "dict_get d key = (case map_of d key of Some v \<Rightarrow> v | None \<Rightarrow> JNull)"

definition dict_get_default :: "dict \<Rightarrow> string \<Rightarrow> json \<Rightarrow> json" where
  "dict_get_default d key dflt = (case map_of d key of Some v \<Rightarrow> v | None \<Rightarrow> dflt)"

text \<open>\<^verbatim>\<open>d[key] = v\<close>: a present key keeps its place, a new key goes last.\<close>

definition dict_set :: "string \<Rightarrow> json \<Rightarrow> dict \<Rightarrow> dict" where
  "dict_set key v d =
     (if map_of d key = None then d @ [(key, v)]
      else map (\<lambda>(k, x). if k = key then (k, v) else (k, x)) d)"

text \<open>Only str, numbers, bools and \<^verbatim>\<open>None\<close> can be looked up in a dict; a list or a dict
  as key raises \<^verbatim>\<open>TypeError: unhashable type\<close>.\<close>

fun hashable :: "json \<Rightarrow> bool" where
  "hashable (JArr xs) = False"
| "hashable (JObj kvs) = False"
| "hashable JNull = True"
| "hashable (JBool b) = True"
| "hashable (JNum n) = True"
| "hashable (JStr s) = True"

text \<open>The exceptions that leave a function of \<^verbatim>\<open>main.py\<close> uncaught.\<close>

datatype exn = TypeError | AttributeError | LyricsError

section \<open>Response extractor\<close>

text \<open>
  \<^verbatim>\<open>find_audio_url\<close> (lines 189-230) and \<^verbatim>\<open>find_audio_id\<close> (lines 232-273) are the same
  code up to the key names: the loop over the direct keys, the probes of \<^verbatim>\<open>data\<close> and
  \<^verbatim>\<open>data.results[0]\<close>, the recursive search over the items of a dict or a list.
\<close>

text \<open>\<^verbatim>\<open>for key in keys: if key in obj and obj[key]: return obj[key]\<close>\<close>

fun direct_match :: "string list \<Rightarrow> dict \<Rightarrow> json option" where
  "direct_match [] obj = None"
| "direct_match (k # ks) obj =
     (case map_of obj k of
        Some v \<Rightarrow> if truthy v then Some v else direct_match ks obj
      | None \<Rightarrow> direct_match ks obj)"

text \<open>The probes under \<^verbatim>\<open>data\<close>: each returns the value of a key that is present,
  whatever the value is.\<close>

definition data_probe :: "string \<Rightarrow> dict \<Rightarrow> json option" where
  "data_probe key obj =
     (case map_of obj ''data'' of
        Some (JObj data) \<Rightarrow>
          (case map_of data key of
             Some v \<Rightarrow> Some v
           | None \<Rightarrow>
               (case map_of data ''results'' of
                  Some (JArr (JObj r # rs)) \<Rightarrow> map_of r key
                | _ \<Rightarrow> None))
      | _ \<Rightarrow> None)"

fun find_field :: "string list \<Rightarrow> string \<Rightarrow> json \<Rightarrow> json"
  and find_field_items :: "string list \<Rightarrow> string \<Rightarrow> dict \<Rightarrow> json"
  and find_field_list :: "string list \<Rightarrow> string \<Rightarrow> json list \<Rightarrow> json" where
  "find_field keys dkey (JObj obj) =
     (case direct_match keys obj of
        Some v \<Rightarrow> v
      | None \<Rightarrow>
          (case data_probe dkey obj of
             Some v \<Rightarrow> v
           | None \<Rightarrow> find_field_items keys dkey obj))"
| "find_field keys dkey (JArr xs) = find_field_list keys dkey xs"
| "find_field keys dkey JNull = JNull"
| "find_field keys dkey (JBool b) = JNull"
| "find_field keys dkey (JNum n) = JNull"
| "find_field keys dkey (JStr s) = JNull"
| "find_field_items keys dkey [] = JNull"
| "find_field_items keys dkey ((k, v) # kvs) =
     (let r = find_field keys dkey v
      in if truthy r then r else find_field_items keys dkey kvs)"
| "find_field_list keys dkey [] = JNull"
| "find_field_list keys dkey (x # xs) =
     (let r = find_field keys dkey x
      in if truthy r then r else find_field_list keys dkey xs)"

definition audio_url_keys :: "string list" where
  "audio_url_keys = [''audioUrl'', ''audio_url'', ''url'', ''mp3Url'', ''streamUrl'']"

definition audio_id_keys :: "string list" where
  "audio_id_keys = [''audioId'', ''audio_id'', ''id'']"

definition find_audio_url :: "json \<Rightarrow> json" where
  "find_audio_url = find_field audio_url_keys ''audio_url''"

definition find_audio_id :: "json \<Rightarrow> json" where
  "find_audio_id = find_field audio_id_keys ''audioId''"

text \<open>The nested helper \<^verbatim>\<open>find_status\<close> of the audio poller (lines 807-820), and with
  \<^verbatim>\<open>''taskId''\<close> the helper \<^verbatim>\<open>find_task_id\<close> of \<^verbatim>\<open>main\<close> (lines 1034-1047): a key that is
  present is returned whatever its value.\<close>

fun find_key :: "string \<Rightarrow> json \<Rightarrow> json"
  and find_key_items :: "string \<Rightarrow> dict \<Rightarrow> json"
  and find_key_list :: "string \<Rightarrow> json list \<Rightarrow> json" where
  "find_key key (JObj obj) =
     (case map_of obj key of
        Some v \<Rightarrow> v
      | None \<Rightarrow> find_key_items key obj)"
| "find_key key (JArr xs) = find_key_list key xs"
| "find_key key JNull = JNull"
| "find_key key (JBool b) = JNull"
| "find_key key (JNum n) = JNull"
| "find_key key (JStr s) = JNull"
| "find_key_items key [] = JNull"
| "find_key_items key ((k, v) # kvs) =
     (let r = find_key key v
      in if truthy r then r else find_key_items key kvs)"
| "find_key_list key [] = JNull"
| "find_key_list key (x # xs) =
     (let r = find_key key x
      in if truthy r then r else find_key_list key xs)"

definition find_status :: "json \<Rightarrow> json" where
  "find_status = find_key ''status''"

text \<open>The nested helper \<^verbatim>\<open>find_url\<close> of the video poller (lines 646-660).\<close>

fun first_present :: "string list \<Rightarrow> dict \<Rightarrow> json option" where
  "first_present [] obj = None"
| "first_present (k # ks) obj =
     (case map_of obj k of Some v \<Rightarrow> Some v | None \<Rightarrow> first_present ks obj)"

fun find_url :: "string list \<Rightarrow> json \<Rightarrow> json"
  and find_url_items :: "string list \<Rightarrow> dict \<Rightarrow> json"
  and find_url_list :: "string list \<Rightarrow> json list \<Rightarrow> json" where
  "find_url keys (JObj obj) =
     (case first_present keys obj of
        Some v \<Rightarrow> v
      | None \<Rightarrow> find_url_items keys obj)"
| "find_url keys (JArr xs) = find_url_list keys xs"
| "find_url keys JNull = JNull"
| "find_url keys (JBool b) = JNull"
| "find_url keys (JNum n) = JNull"
| "find_url keys (JStr s) = JNull"
| "find_url_items keys [] = JNull"
| "find_url_items keys ((k, v) # kvs) =
     (let r = find_url keys v
      in if truthy r then r else find_url_items keys kvs)"
| "find_url_list keys [] = JNull"
| "find_url_list keys (x # xs) =
     (let r = find_url keys x
      in if truthy r then r else find_url_list keys xs)"

section \<open>The network and the trace of a run\<close>

text \<open>
  What \<^verbatim>\<open>requests.get\<close> or \<^verbatim>\<open>requests.post\<close> gives: it raises a
  \<^verbatim>\<open>RequestException\<close> (whose text is kept), or it returns a response with a status code
  and a body that \<^verbatim>\<open>response.json()\<close> decodes or rejects. With requests 2.27 and later
  the \<^verbatim>\<open>JSONDecodeError\<close> of \<^verbatim>\<open>response.json()\<close> is both a \<^verbatim>\<open>ValueError\<close> and a
  \<^verbatim>\<open>RequestException\<close>, so each \<^verbatim>\<open>except\<close> clause of the program catches it.
\<close>

datatype body = Json json | Not_json

datatype reply = Fails string | Reply int body

text \<open>A streamed download: the status code, the \<^verbatim>\<open>content-length\<close> header as \<^verbatim>\<open>int()\<close>
  reads it, the chunks \<^verbatim>\<open>iter_content\<close> yields, and whether the stream breaks with a
  \<^verbatim>\<open>RequestException\<close> after them.\<close>

type_synonym byte = "8 word"

datatype clen = No_header | Int_header int | Bad_header

record stream =
  http_status :: int
  content_length :: clen
  chunks :: "byte list list"
  interrupted :: bool

datatype download = Refused | Streamed stream

text \<open>
  What the process does to the outside, in order. A status check is one call of
  \<^verbatim>\<open>check_generation_status\<close> or \<^verbatim>\<open>check_mp4_status\<close>, with the URLs it requested.
  The local file system is taken to work: a file opened for writing holds what was
  written to it. Sleeps are in seconds and not negative (\<^verbatim>\<open>time.sleep\<close> rejects a
  negative argument, so the interval between checks is a natural number here).
\<close>

datatype event =
    Status_check "string list"
  | Mp4_status_check "string list"
  | Get string
  | Post string json
  | Lyrics_request
  | Sleep nat
  | Write_text string string
  | Write_bytes string "byte list"

fun is_status_check :: "event \<Rightarrow> bool" where
  "is_status_check (Status_check us) = True"
| "is_status_check e = False"

fun is_mp4_status_check :: "event \<Rightarrow> bool" where
  "is_mp4_status_check (Mp4_status_check us) = True"
| "is_mp4_status_check e = False"

definition status_checks :: "event list \<Rightarrow> nat" where
  "status_checks evs = length (filter is_status_check evs)"

definition mp4_status_checks :: "event list \<Rightarrow> nat" where
  "mp4_status_checks evs = length (filter is_mp4_status_check evs)"

section \<open>Status-endpoint resolution\<close>

definition SUNO_API_BASE_URL :: string where
  "SUNO_API_BASE_URL = ''https://apibox.erweima.ai/api/v1''"

definition primary_endpoint :: "string \<Rightarrow> string" where
  "primary_endpoint task_id = SUNO_API_BASE_URL @ ''/generate/record-info?taskId='' @ task_id"

definition alternate_endpoints :: "string \<Rightarrow> string list" where
  "alternate_endpoints task_id =
     [SUNO_API_BASE_URL @ ''/generate/status?taskId='' @ task_id,
      SUNO_API_BASE_URL @ ''/generate/result?taskId='' @ task_id,
      SUNO_API_BASE_URL @ ''/task/'' @ task_id,
      SUNO_API_BASE_URL @ ''/generate/'' @ task_id]"

text \<open>
  \<^verbatim>\<open>check_generation_status\<close> (lines 275-316). One \<^verbatim>\<open>try\<close> spans the whole function: a
  request that raises ends the call with \<^verbatim>\<open>None\<close>. Any status other than 200 goes on to
  the next alternate. The result comes with the URLs requested, in order.
\<close>

fun try_alternates :: "(string \<Rightarrow> reply) \<Rightarrow> string list \<Rightarrow> json \<times> string list" where
  "try_alternates net [] = (JNull, [])"
| "try_alternates net (endpoint # rest) =
     (case net endpoint of
        Fails msg \<Rightarrow> (JNull, [endpoint])
      | Reply sc b \<Rightarrow>
          if sc = 200 then (case b of Json j \<Rightarrow> (j, [endpoint]) | Not_json \<Rightarrow> (JNull, [endpoint]))
          else (let (r, us) = try_alternates net rest in (r, endpoint # us)))"

definition check_generation_status :: "(string \<Rightarrow> reply) \<Rightarrow> string \<Rightarrow> json \<times> string list" where
  "check_generation_status net task_id =
     (case net (primary_endpoint task_id) of
        Fails msg \<Rightarrow> (JNull, [primary_endpoint task_id])
      | Reply sc b \<Rightarrow>
          if sc = 200
          then (case b of
                  Json j \<Rightarrow> (j, [primary_endpoint task_id])
                | Not_json \<Rightarrow> (JNull, [primary_endpoint task_id]))
          else (let (r, us) = try_alternates net (alternate_endpoints task_id)
                in (r, primary_endpoint task_id # us)))"

definition mp4_endpoints :: "string \<Rightarrow> string list" where
  "mp4_endpoints task_id =
     [SUNO_API_BASE_URL @ ''/mp4/record-info?taskId='' @ task_id,
      SUNO_API_BASE_URL @ ''/mp4/generate/record-info?taskId='' @ task_id,
      SUNO_API_BASE_URL @ ''/mp4/status?taskId='' @ task_id]"

text \<open>
  \<^verbatim>\<open>check_mp4_status\<close> (lines 461-504). The \<^verbatim>\<open>try\<close> is inside the loop: a request that
  raises goes on to the next endpoint, as a 404 does; any other status that is not 200
  ends the call with \<^verbatim>\<open>None\<close>.
\<close>

fun try_mp4_endpoints :: "(string \<Rightarrow> reply) \<Rightarrow> string list \<Rightarrow> json \<times> string list" where
  "try_mp4_endpoints net [] = (JNull, [])"
| "try_mp4_endpoints net (endpoint # rest) =
     (case net endpoint of
        Fails msg \<Rightarrow> (let (r, us) = try_mp4_endpoints net rest in (r, endpoint # us))
      | Reply sc b \<Rightarrow>
          if sc = 200
          then (case b of
                  Json j \<Rightarrow> (j, [endpoint])
                | Not_json \<Rightarrow> (let (r, us) = try_mp4_endpoints net rest in (r, endpoint # us)))
          else if sc \<noteq> 404 then (JNull, [endpoint])
          else (let (r, us) = try_mp4_endpoints net rest in (r, endpoint # us)))"

definition check_mp4_status :: "(string \<Rightarrow> reply) \<Rightarrow> string \<Rightarrow> json \<times> string list" where
  "check_mp4_status net task_id = try_mp4_endpoints net (mp4_endpoints task_id)"

section \<open>Downloader\<close>

text \<open>\<^verbatim>\<open>response.raise_for_status()\<close> raises for the codes 400 to 599.\<close>

definition raises_for_status :: "int \<Rightarrow> bool" where
  "raises_for_status sc = (400 \<le> sc \<and> sc < 600)"

text \<open>\<^verbatim>\<open>requests.get(url, stream=True)\<close> at attempt \<open>n\<close>. A URL that is not a str never
  reaches the network: requests raises \<^verbatim>\<open>MissingSchema\<close> or \<^verbatim>\<open>InvalidSchema\<close>, both
  \<^verbatim>\<open>RequestException\<close>s.\<close>

definition stream_get :: "(nat \<Rightarrow> string \<Rightarrow> download) \<Rightarrow> nat \<Rightarrow> json \<Rightarrow> download \<times> event list" where
  "stream_get net n url =
     (case url of JStr u \<Rightarrow> (net n u, [Get u]) | _ \<Rightarrow> (Refused, []))"

text \<open>
  One pass of the \<^verbatim>\<open>try\<close> block of \<^verbatim>\<open>download_music\<close> (lines 703-734): \<open>True\<close> when it
  reaches \<^verbatim>\<open>return True\<close>. Every exception is caught; a file that ends empty is not a
  success.
\<close>

definition music_attempt ::
  "(nat \<Rightarrow> string \<Rightarrow> download) \<Rightarrow> json \<Rightarrow> string \<Rightarrow> nat \<Rightarrow> bool \<times> event list" where
  "music_attempt net audio_url output_path retry_count =
     (case stream_get net retry_count audio_url of
        (Refused, ev) \<Rightarrow> (False, ev)
      | (Streamed r, ev) \<Rightarrow>
          if raises_for_status (http_status r) then (False, ev)
          else if content_length r = Bad_header then (False, ev)
          else if interrupted r then (False, ev @ [Write_bytes output_path (concat (chunks r))])
          else if concat (chunks r) \<noteq> []
               then (True, ev @ [Write_bytes output_path (concat (chunks r))])
               else (False, ev @ [Write_bytes output_path []]))"

function download_music_loop ::
  "(nat \<Rightarrow> string \<Rightarrow> download) \<Rightarrow> json \<Rightarrow> string \<Rightarrow> int \<Rightarrow> nat \<Rightarrow> bool \<times> event list" where
  "download_music_loop net audio_url output_path max_retries retry_count =
     (if int retry_count < max_retries
      then (case music_attempt net audio_url output_path retry_count of
              (True, ev) \<Rightarrow> (True, ev)
            | (False, ev) \<Rightarrow>
                (let (r, ev') = download_music_loop net audio_url output_path max_retries
                                  (Suc retry_count)
                 in (r, ev @ [Sleep (2 ^ retry_count)] @ ev')))
      else (False, []))"
  by pat_completeness auto
termination
  by (relation "measure (\<lambda>(net, u, p, m, n). nat (m - int n))") auto

declare download_music_loop.simps [simp del]

definition download_music ::
  "(nat \<Rightarrow> string \<Rightarrow> download) \<Rightarrow> json \<Rightarrow> string \<Rightarrow> int \<Rightarrow> bool \<times> event list" where
  "download_music net audio_url output_path max_retries =
     download_music_loop net audio_url output_path max_retries 0"

text \<open>
  One pass of the \<^verbatim>\<open>try\<close> block of \<^verbatim>\<open>download_mp4\<close> (lines 522-536): \<open>True\<close> when it
  reaches \<^verbatim>\<open>return True\<close>, which follows the write whatever was written.
\<close>

definition mp4_attempt ::
  "(nat \<Rightarrow> string \<Rightarrow> download) \<Rightarrow> json \<Rightarrow> string \<Rightarrow> nat \<Rightarrow> bool \<times> event list" where
  "mp4_attempt net video_url output_path retry_count =
     (case stream_get net retry_count video_url of
        (Refused, ev) \<Rightarrow> (False, ev)
      | (Streamed r, ev) \<Rightarrow>
          if raises_for_status (http_status r) then (False, ev)
          else if interrupted r then (False, ev @ [Write_bytes output_path (concat (chunks r))])
          else (True, ev @ [Write_bytes output_path (concat (chunks r))]))"

function download_mp4_loop ::
  "(nat \<Rightarrow> string \<Rightarrow> download) \<Rightarrow> json \<Rightarrow> string \<Rightarrow> int \<Rightarrow> nat \<Rightarrow> bool \<times> event list" where
  "download_mp4_loop net video_url output_path max_retries retry_count =
     (if int retry_count < max_retries
      then (case mp4_attempt net video_url output_path retry_count of
              (True, ev) \<Rightarrow> (True, ev)
            | (False, ev) \<Rightarrow>
                if int (Suc retry_count) < max_retries
                then (let (r, ev') = download_mp4_loop net video_url output_path max_retries
                                       (Suc retry_count)
                      in (r, ev @ [Sleep (5 * Suc retry_count)] @ ev'))
                else (False, ev))
      else (False, []))"
  by pat_completeness auto
termination
  by (relation "measure (\<lambda>(net, u, p, m, n). nat (m - int n))") auto

declare download_mp4_loop.simps [simp del]

definition download_mp4 ::
  "(nat \<Rightarrow> string \<Rightarrow> download) \<Rightarrow> json \<Rightarrow> string \<Rightarrow> int \<Rightarrow> bool \<times> event list" where
  "download_mp4 net video_url output_path max_retries =
     download_mp4_loop net video_url output_path max_retries 0"

section \<open>Video submission\<close>

definition mp4_generate_url :: string where
  "mp4_generate_url = SUNO_API_BASE_URL @ ''/mp4/generate''"

definition mp4_payload :: "string \<Rightarrow> json \<Rightarrow> json" where
  "mp4_payload task_id audio_id =
     JObj [(''taskId'', JStr task_id), (''audioId'', audio_id),
           (''callBackUrl'', JStr ''https://example.com/callback'')]"

text \<open>The dict literal of every failure return of \<^verbatim>\<open>generate_mp4\<close>.\<close>

definition failure_dict :: "json \<Rightarrow> json \<Rightarrow> json \<Rightarrow> dict" where
  "failure_dict err code data =
     [(''success'', JBool False), (''error'', err), (''error_code'', code), (''data'', data)]"

text \<open>
  Lines 395-421: the success path of \<^verbatim>\<open>generate_mp4\<close>. A response that is not a dict is
  wrapped; \<^verbatim>\<open>success\<close> is set; a missing \<^verbatim>\<open>data\<close> becomes \<^verbatim>\<open>{}\<close>; a task id found only
  at the root is stored with \<^verbatim>\<open>resp_json["data"]["taskId"] = task_id\<close>, an item
  assignment that raises \<^verbatim>\<open>TypeError\<close> when \<^verbatim>\<open>data\<close> is present and is not a dict.
\<close>

definition standardize :: "json \<Rightarrow> exn + dict" where
  "standardize resp_json =
     (let obj0 = (case resp_json of JObj obj \<Rightarrow> obj | _ \<Rightarrow> [(''data'', resp_json)]);
          obj1 = dict_set ''success'' (JBool True) obj0;
          obj2 = (if map_of obj1 ''data'' = None then dict_set ''data'' (JObj []) obj1 else obj1);
          task_id = (case map_of obj2 ''data'' of
                       Some (JObj d) \<Rightarrow> dict_get d ''taskId''
                     | _ \<Rightarrow> JNull)
      in if \<not> truthy task_id
         then (case map_of obj2 ''taskId'' of
                 Some t \<Rightarrow>
                   (case map_of obj2 ''data'' of
                      Some (JObj d) \<Rightarrow>
                        Inr (dict_set ''data'' (JObj (dict_set ''taskId'' t d)) obj2)
                    | _ \<Rightarrow> Inl TypeError)
               | None \<Rightarrow> Inr obj2)
         else Inr obj2)"

text \<open>\<^verbatim>\<open>generate_mp4\<close> (lines 329-459); \<open>post\<close> answers the request by its payload.\<close>

definition generate_mp4 ::
  "(json \<Rightarrow> reply) \<Rightarrow> string \<Rightarrow> json \<Rightarrow> string \<Rightarrow> (exn + dict) \<times> event list" where
  "generate_mp4 post task_id audio_id output_path =
     (let payload = mp4_payload task_id audio_id;
          ev = [Post mp4_generate_url payload]
      in case post payload of
           Fails msg \<Rightarrow>
             (Inr (failure_dict (JStr msg) (JStr ''NETWORK_ERROR'') (JObj [])), ev)
         | Reply sc Not_json \<Rightarrow>
             (Inr (failure_dict (JStr ''Invalid JSON response'') (JStr ''PARSE_ERROR'') (JObj [])), ev)
         | Reply sc (Json resp_json) \<Rightarrow>
             if sc = 200
             then (case resp_json of
                     JObj obj \<Rightarrow>
                       if \<not> py_eq_int (dict_get obj ''code'') 200
                       then (Inr (failure_dict (dict_get_default obj ''msg'' (JStr ''Unknown error''))
                                    (dict_get obj ''code'')
                                    (dict_get_default obj ''data'' (JObj []))), ev)
                       else (standardize resp_json, ev)
                   | _ \<Rightarrow> (standardize resp_json, ev))
             else if sc = 401
             then (Inr (failure_dict
                          (JStr ''Authentication error: You do not have access permissions'')
                          (JNum 401) (JObj [])), ev)
             else (case resp_json of
                     JObj obj \<Rightarrow>
                       if map_of obj ''code'' \<noteq> None \<and> map_of obj ''msg'' \<noteq> None
                       then (Inr (failure_dict (dict_get obj ''msg'') (dict_get obj ''code'')
                                    (JObj [])), ev)
                       else (Inr (failure_dict (JStr ''Unknown error'') (JNum sc) (JObj [])), ev)
                   | _ \<Rightarrow> (Inr (failure_dict (JStr ''Unknown error'') (JNum sc) (JObj [])), ev)))"

section \<open>Job pollers\<close>

text \<open>
  The outside of one run: each call site has its own answers, indexed by how often the
  site was reached (the poll cycle, the download attempt). \<open>splitext_root p\<close> is the
  library's \<^verbatim>\<open>os.path.splitext(p)[0]\<close>.
\<close>

record world =
  status_net :: "nat \<Rightarrow> string \<Rightarrow> reply"
  audio_net :: "nat \<Rightarrow> string \<Rightarrow> download"
  mp4_post :: "json \<Rightarrow> reply"
  mp4_status_net :: "nat \<Rightarrow> string \<Rightarrow> reply"
  mp4_net :: "nat \<Rightarrow> string \<Rightarrow> download"
  splitext_root :: "string \<Rightarrow> string"

text \<open>
  How a poller's run ends: with the result of the download, at a success status with
  no URL, at an application error code, at a failure status, after the last check
  (the only ending that prints the hint to resume later), or with an exception that
  nothing catches. All but the first and the last are \<^verbatim>\<open>return False\<close>.
\<close>

datatype ending =
    Download_result bool
  | No_url
  | Api_error
  | Job_failed
  | Exceeded_checks
  | Uncaught exn

fun returned :: "ending \<Rightarrow> bool option" where
  "returned (Download_result b) = Some b"
| "returned (Uncaught e) = None"
| "returned No_url = Some False"
| "returned Api_error = Some False"
| "returned Job_failed = Some False"
| "returned Exceeded_checks = Some False"

text \<open>What the body of a polling loop does with one status response: go round again,
  or end the run.\<close>

datatype step = Again | Ended ending "event list"

subsection \<open>Video poller\<close>

definition video_url_fields :: "string list" where
  "video_url_fields = [''video_url'', ''videoUrl'', ''url'', ''mp4Url'', ''mp4_url'', ''videoPath'']"

definition file_host :: string where
  "file_host = ''https://apiboxfiles.erweima.ai''"

definition mp4_success_statuses :: "json list" where
  "mp4_success_statuses = [JStr ''complete'', JStr ''SUCCESS'', JStr ''FIRST_SUCCESS'']"

definition mp4_failure_statuses :: "json list" where
  "mp4_failure_statuses = [JStr ''failed'', JStr ''FAILED'', JStr ''ERROR'']"

text \<open>Lines 636-642: a path is completed to a URL on the file host.\<close>

definition absolute_url :: "string \<Rightarrow> string" where
  "absolute_url u =
     (if take 4 u = ''http'' then u
      else if take 1 u = ''/'' then file_host @ u
      else file_host @ ''/'' @ u)"

text \<open>Lines 626-672: the success branch. \<^verbatim>\<open>video_url.startswith\<close> raises
  \<^verbatim>\<open>AttributeError\<close> on a value that is true and not a str.\<close>

definition mp4_success :: "world \<Rightarrow> dict \<Rightarrow> dict \<Rightarrow> string \<Rightarrow> step" where
  "mp4_success w task_details data output_path =
     (let finish = (\<lambda>video_url.
            if truthy video_url
            then (case download_mp4 (mp4_net w) video_url output_path 5 of
                    (success, ev) \<Rightarrow> Ended (Download_result success) ev)
            else Ended No_url [])
      in case first_present video_url_fields data of
           Some (JStr u) \<Rightarrow>
             if u \<noteq> [] then finish (JStr (absolute_url u))
             else finish (find_url video_url_fields (JObj task_details))
         | Some v \<Rightarrow>
             if truthy v then Ended (Uncaught AttributeError) []
             else finish (find_url video_url_fields (JObj task_details))
         | None \<Rightarrow> finish (find_url video_url_fields (JObj task_details)))"

text \<open>Lines 592-606: the \<^verbatim>\<open>data\<close> the video poller reads (the response itself when
  \<^verbatim>\<open>data\<close> is empty and the root has \<^verbatim>\<open>taskId\<close> and \<^verbatim>\<open>musicId\<close>), and its status: a
  \<^verbatim>\<open>completeTime\<close> with no status counts as \<^verbatim>\<open>complete\<close>. \<^verbatim>\<open>data.get\<close> raises
  \<^verbatim>\<open>AttributeError\<close> when \<^verbatim>\<open>data\<close> is not a dict.\<close>

definition mp4_data :: "dict \<Rightarrow> json" where
  "mp4_data task_details =
     (let data = dict_get_default task_details ''data'' (JObj [])
      in if \<not> truthy data \<and> map_of task_details ''taskId'' \<noteq> None
              \<and> map_of task_details ''musicId'' \<noteq> None
         then JObj task_details else data)"

definition mp4_status :: "dict \<Rightarrow> json" where
  "mp4_status data =
     (let status = dict_get data ''status''
      in if truthy (dict_get data ''completeTime'') \<and> \<not> truthy status
         then JStr ''complete'' else status)"

definition mp4_cycle :: "world \<Rightarrow> string \<Rightarrow> json \<Rightarrow> step" where
  "mp4_cycle w output_path task_details =
     (if \<not> truthy task_details then Again
      else case task_details of
        JObj td \<Rightarrow>
          if truthy (dict_get td ''code'') \<and> \<not> py_eq_int (dict_get td ''code'') 200
          then Ended Api_error []
          else (case mp4_data td of
                  JObj data \<Rightarrow>
                    if mp4_status data \<in> set mp4_success_statuses
                    then mp4_success w td data output_path
                    else if mp4_status data \<in> set mp4_failure_statuses
                    then Ended Job_failed []
                    else Again
                | _ \<Rightarrow> Ended (Uncaught AttributeError) [])
      | _ \<Rightarrow> Ended (Uncaught AttributeError) [])"

text \<open>The \<^verbatim>\<open>while checks < max_checks\<close> loop of \<^verbatim>\<open>monitor_and_download_mp4\<close>
  (lines 572-687), from the value \<open>checks\<close> of its counter.\<close>

function mp4_loop ::
  "world \<Rightarrow> string \<Rightarrow> string \<Rightarrow> int \<Rightarrow> nat \<Rightarrow> nat \<Rightarrow> ending \<times> event list" where
  "mp4_loop w task_id output_path max_checks check_interval checks =
     (if int checks < max_checks
      then (case check_mp4_status (mp4_status_net w checks) task_id of
              (task_details, urls) \<Rightarrow>
                (case mp4_cycle w output_path task_details of
                   Again \<Rightarrow>
                     (case mp4_loop w task_id output_path max_checks check_interval (Suc checks) of
                        (r, ev) \<Rightarrow> (r, Mp4_status_check urls # Sleep check_interval # ev))
                 | Ended r ev \<Rightarrow> (r, Mp4_status_check urls # ev)))
      else (Exceeded_checks, []))"
  by pat_completeness auto
termination
  by (relation "measure (\<lambda>(w, t, p, m, i, n). nat (m - int n))") auto

declare mp4_loop.simps [simp del]

definition monitor_and_download_mp4 ::
  "world \<Rightarrow> string \<Rightarrow> string \<Rightarrow> int \<Rightarrow> nat \<Rightarrow> ending \<times> event list" where
  "monitor_and_download_mp4 w task_id output_path max_checks check_interval =
     (case mp4_loop w task_id output_path max_checks check_interval 0 of
        (r, ev) \<Rightarrow> (r, Write_text ''last_mp4_task_id.txt'' task_id # ev))"

subsection \<open>Audio poller\<close>

definition SUNO_STATUS :: "(string \<times> string) list" where
  "SUNO_STATUS =
     [(''PENDING'', ''Pending execution''),
      (''TEXT_SUCCESS'', ''Text generation successful''),
      (''FIRST_SUCCESS'', ''First song generation successful''),
      (''SUCCESS'', ''Generation successful''),
      (''CREATE_TASK_FAILED'', ''Task creation failed''),
      (''GENERATE_AUDIO_FAILED'', ''Song generation failed''),
      (''CALLBACK_EXCEPTION'', ''Callback exception''),
      (''SENSITIVE_WORD_ERROR'', ''Sensitive word error'')]"

text \<open>\<^verbatim>\<open>get_status_description\<close> (lines 318-327): \<^verbatim>\<open>SUNO_STATUS.get(status_code, ...)\<close>
  hashes its key.\<close>

datatype description = Known string | Unknown_status json

definition get_status_description :: "json \<Rightarrow> exn + description" where
  "get_status_description status_code =
     (if \<not> hashable status_code then Inl TypeError
      else case status_code of
             JStr s \<Rightarrow>
               (case map_of SUNO_STATUS s of
                  Some d \<Rightarrow> Inr (Known d)
                | None \<Rightarrow> Inr (Unknown_status status_code))
           | _ \<Rightarrow> Inr (Unknown_status status_code))"

definition success_statuses :: "json list" where
  "success_statuses = [JStr ''SUCCESS'', JStr ''FIRST_SUCCESS'']"

definition failure_statuses :: "json list" where
  "failure_statuses =
     [JStr ''CREATE_TASK_FAILED'', JStr ''GENERATE_AUDIO_FAILED'',
      JStr ''CALLBACK_EXCEPTION'', JStr ''SENSITIVE_WORD_ERROR'']"

definition pending_statuses :: "json list" where
  "pending_statuses = [JStr ''PENDING'', JStr ''TEXT_SUCCESS'']"

text \<open>Lines 794-822: the status, from \<^verbatim>\<open>data.status\<close>, else the root, else the
  recursive search.\<close>

definition audio_status :: "dict \<Rightarrow> json" where
  "audio_status task_details =
     (let data = dict_get_default task_details ''data'' (JObj []);
          status = (case data of JObj d \<Rightarrow> dict_get d ''status'' | _ \<Rightarrow> JNull)
      in if truthy status then status
         else if truthy (dict_get task_details ''status'') then dict_get task_details ''status''
         else find_status (JObj task_details))"

text \<open>Lines 779-791: the application code ends the run unless it is false, 200 or 404.\<close>

definition audio_api_error :: "dict \<Rightarrow> bool" where
  "audio_api_error task_details =
     (let api_code = dict_get task_details ''code''
      in truthy api_code \<and> \<not> py_eq_int api_code 200
         \<and> \<not> (py_eq_int api_code 200 \<or> py_eq_int api_code 404))"

text \<open>Lines 845-878: the video chain, run inside \<^verbatim>\<open>try ... except Exception\<close>; only what
  it does to the outside is left of it.\<close>

definition start_mp4 ::
  "world \<Rightarrow> string \<Rightarrow> json \<Rightarrow> string \<Rightarrow> int \<Rightarrow> nat \<Rightarrow> string option \<Rightarrow> event list" where
  "start_mp4 w task_id audio_id output_path max_checks check_interval mp4_output_path =
     (let mp4_path = (case mp4_output_path of
                        Some p \<Rightarrow> if p \<noteq> [] then p else splitext_root w output_path @ ''.mp4''
                      | None \<Rightarrow> splitext_root w output_path @ ''.mp4'')
      in case generate_mp4 (mp4_post w) task_id audio_id mp4_path of
           (Inl e, ev) \<Rightarrow> ev
         | (Inr mp4_response, ev) \<Rightarrow>
             if truthy (dict_get_default mp4_response ''success'' (JBool False))
             then (case dict_get_default mp4_response ''data'' (JObj []) of
                     JObj d \<Rightarrow>
                       if truthy (dict_get d ''taskId'')
                       then (case dict_get d ''taskId'' of
                               JStr mp4_task_id \<Rightarrow>
                                 ev @ [Write_text ''last_mp4_task_id.txt'' mp4_task_id]
                                 @ snd (monitor_and_download_mp4 w mp4_task_id mp4_path
                                          max_checks check_interval)
                             | _ \<Rightarrow> ev @ [Write_text ''last_mp4_task_id.txt'' []])
                       else ev
                   | _ \<Rightarrow> ev)
             else ev)"

text \<open>Lines 833-883: the success branch of the audio poller.\<close>

definition audio_success ::
  "world \<Rightarrow> string \<Rightarrow> dict \<Rightarrow> string \<Rightarrow> int \<Rightarrow> nat \<Rightarrow> bool \<Rightarrow> string option \<Rightarrow> step" where
  "audio_success w task_id task_details output_path max_checks check_interval want_mp4
       mp4_output_path =
     (let audio_url = find_audio_url (JObj task_details);
          audio_id = find_audio_id (JObj task_details)
      in if truthy audio_url
         then (case download_music (audio_net w) audio_url output_path 5 of
                 (success, ev) \<Rightarrow>
                   if want_mp4 \<and> truthy audio_id \<and> success
                   then Ended (Download_result success)
                          (ev @ start_mp4 w task_id audio_id output_path max_checks
                                  check_interval mp4_output_path)
                   else Ended (Download_result success) ev)
         else Ended No_url [])"

text \<open>Lines 772-890: the body of the loop after the status check. \<^verbatim>\<open>task_details.get\<close>
  raises \<^verbatim>\<open>AttributeError\<close> on a response that is true and not a dict.\<close>

definition audio_cycle ::
  "world \<Rightarrow> string \<Rightarrow> string \<Rightarrow> int \<Rightarrow> nat \<Rightarrow> bool \<Rightarrow> string option \<Rightarrow> json \<Rightarrow> step" where
  "audio_cycle w task_id output_path max_checks check_interval want_mp4 mp4_output_path
       task_details =
     (if \<not> truthy task_details then Again
      else case task_details of
        JObj td \<Rightarrow>
          if audio_api_error td then Ended Api_error []
          else (case get_status_description (audio_status td) of
                  Inl e \<Rightarrow> Ended (Uncaught e) []
                | Inr status_desc \<Rightarrow>
                    if audio_status td \<in> set success_statuses
                    then audio_success w task_id td output_path max_checks check_interval
                           want_mp4 mp4_output_path
                    else if audio_status td \<in> set failure_statuses
                    then Ended Job_failed []
                    else Again)
      | _ \<Rightarrow> Ended (Uncaught AttributeError) [])"

text \<open>The \<^verbatim>\<open>while checks < max_checks\<close> loop of \<^verbatim>\<open>monitor_and_download\<close>
  (lines 767-897), from the value \<open>checks\<close> of its counter.\<close>

function monitor_loop ::
  "world \<Rightarrow> string \<Rightarrow> string \<Rightarrow> int \<Rightarrow> nat \<Rightarrow> bool \<Rightarrow> string option \<Rightarrow> nat
   \<Rightarrow> ending \<times> event list" where
  "monitor_loop w task_id output_path max_checks check_interval want_mp4 mp4_output_path checks =
     (if int checks < max_checks
      then (case check_generation_status (status_net w checks) task_id of
              (task_details, urls) \<Rightarrow>
                (case audio_cycle w task_id output_path max_checks check_interval want_mp4
                        mp4_output_path task_details of
                   Again \<Rightarrow>
                     (case monitor_loop w task_id output_path max_checks check_interval
                             want_mp4 mp4_output_path (Suc checks) of
                        (r, ev) \<Rightarrow> (r, Status_check urls # Sleep check_interval # ev))
                 | Ended r ev \<Rightarrow> (r, Status_check urls # ev)))
      else (Exceeded_checks, []))"
  by pat_completeness auto
termination
  by (relation "measure (\<lambda>(w, t, p, m, i, g, q, n). nat (m - int n))") auto

declare monitor_loop.simps [simp del]

text \<open>\<^verbatim>\<open>monitor_and_download\<close> (lines 744-897): the task id is written to its file
  before the loop starts.\<close>

definition monitor_and_download ::
  "world \<Rightarrow> string \<Rightarrow> string \<Rightarrow> int \<Rightarrow> nat \<Rightarrow> bool \<Rightarrow> string option \<Rightarrow> ending \<times> event list" where
  "monitor_and_download w task_id output_path max_checks check_interval want_mp4 mp4_output_path =
     (case monitor_loop w task_id output_path max_checks check_interval want_mp4
             mp4_output_path 0 of
        (r, ev) \<Rightarrow> (r, Write_text ''last_task_id.txt'' task_id # ev))"

section \<open>Audio submission and the command line\<close>

text \<open>
  An option declared with \<^verbatim>\<open>nargs='?', const=True\<close>: left out (\<^verbatim>\<open>None\<close>), given bare
  (\<^verbatim>\<open>True\<close>), or given with a value.
\<close>

datatype optarg = Absent | Flag | Given string

fun optarg_truthy :: "optarg \<Rightarrow> bool" where
  "optarg_truthy Absent = False"
| "optarg_truthy Flag = True"
| "optarg_truthy (Given s) = (s \<noteq> [])"

record args =
  arg_theme :: "string option"
  arg_style :: string
  arg_verses :: int
  arg_chorus :: bool
  arg_custom :: bool
  arg_instrumental :: bool
  arg_model :: string
  arg_output :: string
  arg_debug :: bool
  arg_checks :: int
  arg_interval :: nat
  arg_check_task :: optarg
  arg_generate_mp4 :: bool
  arg_mp4_output :: "string option"
  arg_check_mp4_task :: optarg

text \<open>
  The process environment beyond the pollers' network: the two API keys as
  \<^verbatim>\<open>os.getenv\<close> gives them, the text files present at the start, the answer to the
  audio submission, the result of \<^verbatim>\<open>LyricsGenerator.generate_lyrics\<close> (title and
  content, or the exception it raises), and the library's \<^verbatim>\<open>str.strip\<close> and
  \<^verbatim>\<open>str.capitalize\<close>.
\<close>

record env = world +
  suno_api_key :: "string option"
  anthropic_api_key :: "string option"
  files :: "string \<Rightarrow> string option"
  generate_post :: "json \<Rightarrow> reply"
  lyrics_result :: "exn + string \<times> string"
  py_strip :: "string \<Rightarrow> string"
  py_capitalize :: "string \<Rightarrow> string"

definition getenv_truthy :: "string option \<Rightarrow> bool" where
  "getenv_truthy v = (case v of None \<Rightarrow> False | Some s \<Rightarrow> s \<noteq> [])"

definition generate_url :: string where
  "generate_url = SUNO_API_BASE_URL @ ''/generate''"

text \<open>\<^verbatim>\<open>generate_music\<close> (lines 119-187): the decoded response at status 200, else
  \<^verbatim>\<open>None\<close>.\<close>

definition generate_music ::
  "(json \<Rightarrow> reply) \<Rightarrow> string \<Rightarrow> string \<Rightarrow> string \<Rightarrow> bool \<Rightarrow> bool \<Rightarrow> string
   \<Rightarrow> json \<times> event list" where
  "generate_music post title lyrics style custom_mode instrumental model =
     (let payload = JObj [(''prompt'', JStr lyrics),
                          (''style'', JStr (if custom_mode then style else [])),
                          (''title'', JStr (if custom_mode then title else [])),
                          (''customMode'', JBool custom_mode),
                          (''instrumental'', JBool instrumental),
                          (''model'', JStr model),
                          (''callBackUrl'', JStr ''https://example.com/callback'')];
          ev = [Post generate_url payload]
      in case post payload of
           Fails msg \<Rightarrow> (JNull, ev)
         | Reply sc b \<Rightarrow>
             if sc = 200 then (case b of Json j \<Rightarrow> (j, ev) | Not_json \<Rightarrow> (JNull, ev))
             else (JNull, ev))"

text \<open>How \<^verbatim>\<open>main\<close> ends: each constructor is one \<^verbatim>\<open>return\<close> of lines 900-1065, named
  after the message printed before it, or the end of the poller it ran.\<close>

datatype main_exit =
    No_suno_key
  | No_anthropic_key
  | No_mp4_task_file
  | No_task_file
  | No_theme
  | Lyrics_raised exn
  | Generation_failed
  | Task_id_error
  | No_task_id
  | Mp4_monitored ending
  | Monitored ending

text \<open>Lines 1024-1060: the task id of the submission's response.\<close>

definition submitted_task_id :: "json \<Rightarrow> exn + json" where
  "submitted_task_id generation_response =
     (case generation_response of
        JObj resp \<Rightarrow>
          (case dict_get_default resp ''data'' (JObj []) of
             JObj d \<Rightarrow>
               if truthy (dict_get d ''taskId'') then Inr (dict_get d ''taskId'')
               else if truthy (dict_get resp ''taskId'') then Inr (dict_get resp ''taskId'')
               else Inr (find_key ''taskId'' generation_response)
           | _ \<Rightarrow> Inl AttributeError)
      | _ \<Rightarrow> Inl AttributeError)"

text \<open>\<^verbatim>\<open>monitor_and_download\<close> called with the task id as \<^verbatim>\<open>main\<close> found it:
  \<^verbatim>\<open>f.write(task_id)\<close> raises \<^verbatim>\<open>TypeError\<close> on a value that is not a str, after the file
  was opened.\<close>

definition monitor_found ::
  "world \<Rightarrow> json \<Rightarrow> string \<Rightarrow> int \<Rightarrow> nat \<Rightarrow> bool \<Rightarrow> string option \<Rightarrow> ending \<times> event list" where
  "monitor_found w task_id output_path max_checks check_interval want_mp4 mp4_output_path =
     (case task_id of
        JStr t \<Rightarrow> monitor_and_download w t output_path max_checks check_interval want_mp4
                    mp4_output_path
      | _ \<Rightarrow> (Uncaught TypeError, [Write_text ''last_task_id.txt'' []]))"

definition main :: "env \<Rightarrow> args \<Rightarrow> main_exit \<times> event list" where
  "main e a =
     (if \<not> getenv_truthy (suno_api_key e) then (No_suno_key, [])
      else if \<not> arg_instrumental a \<and> \<not> getenv_truthy (anthropic_api_key e)
      then (No_anthropic_key, [])
      else if optarg_truthy (arg_check_mp4_task a)
      then (let mp4_output = (case arg_mp4_output a of
                                Some p \<Rightarrow> if p \<noteq> [] then p else ''output.mp4''
                              | None \<Rightarrow> ''output.mp4'');
                monitor = (\<lambda>mp4_task_id.
                  case monitor_and_download_mp4 (world.truncate e) mp4_task_id mp4_output
                         (arg_checks a) (arg_interval a) of
                    (r, ev) \<Rightarrow> (Mp4_monitored r, ev))
            in case arg_check_mp4_task a of
                 Given mp4_task_id \<Rightarrow> monitor mp4_task_id
               | _ \<Rightarrow>
                   (case files e ''last_mp4_task_id.txt'' of
                      None \<Rightarrow> (No_mp4_task_file, [])
                    | Some content \<Rightarrow> monitor (py_strip e content)))
      else if optarg_truthy (arg_check_task a)
      then (let monitor = (\<lambda>task_id.
                  case monitor_and_download (world.truncate e) task_id (arg_output a)
                         (arg_checks a) (arg_interval a) (arg_generate_mp4 a)
                         (arg_mp4_output a) of
                    (r, ev) \<Rightarrow> (Monitored r, ev))
            in case arg_check_task a of
                 Given task_id \<Rightarrow> monitor task_id
               | _ \<Rightarrow>
                   (case files e ''last_task_id.txt'' of
                      None \<Rightarrow> (No_task_file, [])
                    | Some content \<Rightarrow> monitor (py_strip e content)))
      else case arg_theme a of
        None \<Rightarrow> (No_theme, [])
      | Some theme \<Rightarrow>
          if theme = [] then (No_theme, [])
          else (let submit = (\<lambda>lyrics_title lyrics_content ev0.
                      case generate_music (generate_post e) lyrics_title lyrics_content
                             (arg_style a) (arg_custom a) (arg_instrumental a) (arg_model a) of
                        (generation_response, ev1) \<Rightarrow>
                          if \<not> truthy generation_response
                          then (Generation_failed, ev0 @ ev1)
                          else (case submitted_task_id generation_response of
                                  Inl ex \<Rightarrow> (Task_id_error, ev0 @ ev1)
                                | Inr task_id \<Rightarrow>
                                    if \<not> truthy task_id then (No_task_id, ev0 @ ev1)
                                    else (case monitor_found (world.truncate e) task_id
                                                 (arg_output a) (arg_checks a) (arg_interval a)
                                                 (arg_generate_mp4 a) (arg_mp4_output a) of
                                            (r, ev2) \<Rightarrow> (Monitored r, ev0 @ ev1 @ ev2))))
                in if \<not> arg_instrumental a
                   then (case lyrics_result e of
                           Inl ex \<Rightarrow> (Lyrics_raised ex, [Lyrics_request])
                         | Inr (title, content) \<Rightarrow> submit title content [Lyrics_request])
                   else submit (py_capitalize e theme) theme []))"

section \<open>Notions the properties are stated with\<close>

text \<open>The response of the status check of cycle \<open>c\<close> (the counter \<^verbatim>\<open>checks\<close> has the
  value \<open>c\<close>), and the URLs the check requested.\<close>

definition audio_response :: "world \<Rightarrow> string \<Rightarrow> nat \<Rightarrow> json" where
  "audio_response w task_id c = fst (check_generation_status (status_net w c) task_id)"

definition audio_urls :: "world \<Rightarrow> string \<Rightarrow> nat \<Rightarrow> string list" where
  "audio_urls w task_id c = snd (check_generation_status (status_net w c) task_id)"

definition mp4_response :: "world \<Rightarrow> string \<Rightarrow> nat \<Rightarrow> json" where
  "mp4_response w task_id c = fst (check_mp4_status (mp4_status_net w c) task_id)"

definition mp4_urls :: "world \<Rightarrow> string \<Rightarrow> nat \<Rightarrow> string list" where
  "mp4_urls w task_id c = snd (check_mp4_status (mp4_status_net w c) task_id)"

text \<open>
  The status a poller observes in a response: the value its \<^verbatim>\<open>status\<close> variable holds
  when the body of the loop reaches the branch on it. There is none when the response
  is empty or not a dict, when the application code ended the run before, or (video)
  when \<^verbatim>\<open>data\<close> is not a dict.
\<close>

definition audio_observed :: "json \<Rightarrow> json option" where
  "audio_observed task_details =
     (case task_details of
        JObj td \<Rightarrow> if td \<noteq> [] \<and> \<not> audio_api_error td then Some (audio_status td) else None
      | _ \<Rightarrow> None)"

definition mp4_observed :: "json \<Rightarrow> json option" where
  "mp4_observed task_details =
     (case task_details of
        JObj td \<Rightarrow>
          if td \<noteq> [] \<and> \<not> (truthy (dict_get td ''code'') \<and> \<not> py_eq_int (dict_get td ''code'') 200)
          then (case mp4_data td of JObj data \<Rightarrow> Some (mp4_status data) | _ \<Rightarrow> None)
          else None
      | _ \<Rightarrow> None)"






text \<open>Worlds for concrete runs: nothing answers, or every status check is answered at
  its first endpoint with the document scripted for the cycle (one script for the audio
  job, one for the video job).\<close>

definition silent :: world where
  "silent =
     \<lparr>status_net = (\<lambda>c u. Fails ''timeout''),
      audio_net = (\<lambda>n u. Refused),
      mp4_post = (\<lambda>p. Fails ''timeout''),
      mp4_status_net = (\<lambda>c u. Fails ''timeout''),
      mp4_net = (\<lambda>n u. Refused),
      splitext_root = (\<lambda>p. p)\<rparr>"

definition scripted :: "(nat \<Rightarrow> json) \<Rightarrow> (nat \<Rightarrow> json) \<Rightarrow> world" where
  "scripted audio_script mp4_script =
     silent\<lparr>status_net := (\<lambda>c u. Reply 200 (Json (audio_script c))),
            mp4_status_net := (\<lambda>c u. Reply 200 (Json (mp4_script c)))\<rparr>"

definition status_doc :: "string \<Rightarrow> json" where
  "status_doc s = JObj [(''code'', JNum 200), (''data'', JObj [(''status'', JStr s)])]"

text \<open>The same document in every cycle of either job; a download server that answers
  200 with an empty body; a status server whose primary audio endpoint for the task
  \<^verbatim>\<open>t1\<close> answers 500 and that answers 200 everywhere else; a video submission answered
  with status 200 and the given document.\<close>

definition answering :: "json \<Rightarrow> world" where
  "answering doc = scripted (\<lambda>c. doc) (\<lambda>c. doc)"

definition empty_body :: "nat \<Rightarrow> string \<Rightarrow> download" where
  "empty_body n u =
     Streamed \<lparr>http_status = 200, content_length = Int_header 0, chunks = [],
               interrupted = False\<rparr>"


definition post_answers :: "json \<Rightarrow> json \<Rightarrow> reply" where
  "post_answers doc payload = Reply 200 (Json doc)"

text \<open>The command line with no option given (the defaults of the parser), and an
  environment with the given keys in which no file exists and nothing answers.\<close>

definition default_args :: args where
  "default_args =
     \<lparr>arg_theme = None, arg_style = ''pop'', arg_verses = 2, arg_chorus = False,
      arg_custom = True, arg_instrumental = False, arg_model = ''V3_5'',
      arg_output = ''output.mp3'', arg_debug = False, arg_checks = 30, arg_interval = 10,
      arg_check_task = Absent, arg_generate_mp4 = False, arg_mp4_output = None,
      arg_check_mp4_task = Absent\<rparr>"

definition offline :: "string option \<Rightarrow> string option \<Rightarrow> env" where
  "offline suno anthropic =
     \<lparr>status_net = (\<lambda>c u. Fails ''timeout''),
      audio_net = (\<lambda>n u. Refused),
      mp4_post = (\<lambda>p. Fails ''timeout''),
      mp4_status_net = (\<lambda>c u. Fails ''timeout''),
      mp4_net = (\<lambda>n u. Refused),
      splitext_root = (\<lambda>p. p),
      suno_api_key = suno,
      anthropic_api_key = anthropic,
      files = (\<lambda>f. None),
      generate_post = (\<lambda>p. Fails ''timeout''),
      lyrics_result = Inl LyricsError,
      py_strip = (\<lambda>s. s),
      py_capitalize = (\<lambda>s. s)\<rparr>"

section \<open>The loops, one step at a time\<close>

lemma monitor_loop_stop:
  "\<not> int c < m \<Longrightarrow> monitor_loop w t p m iv g q c = (Exceeded_checks, [])"
  by (subst monitor_loop.simps) simp

lemma monitor_loop_again:
  "int c < m \<Longrightarrow> audio_cycle w t p m iv g q (audio_response w t c) = Again \<Longrightarrow>
   monitor_loop w t p m iv g q c =
     (fst (monitor_loop w t p m iv g q (Suc c)),
      Status_check (audio_urls w t c) # Sleep iv # snd (monitor_loop w t p m iv g q (Suc c)))"
  apply (subst monitor_loop.simps)
  apply (cases "check_generation_status (status_net w c) t")
  apply (cases "monitor_loop w t p m iv g q (Suc c)")
  apply (simp add: audio_response_def audio_urls_def)
  done

lemma monitor_loop_ended:
  "int c < m \<Longrightarrow> audio_cycle w t p m iv g q (audio_response w t c) = Ended r ev \<Longrightarrow>
   monitor_loop w t p m iv g q c = (r, Status_check (audio_urls w t c) # ev)"
  apply (subst monitor_loop.simps)
  apply (cases "check_generation_status (status_net w c) t")
  apply (cases "monitor_loop w t p m iv g q (Suc c)")
  apply (simp add: audio_response_def audio_urls_def)
  done


lemma mp4_loop_again:
  "int c < m \<Longrightarrow> mp4_cycle w p (mp4_response w t c) = Again \<Longrightarrow>
   mp4_loop w t p m iv c =
     (fst (mp4_loop w t p m iv (Suc c)),
      Mp4_status_check (mp4_urls w t c) # Sleep iv # snd (mp4_loop w t p m iv (Suc c)))"
  apply (subst mp4_loop.simps)
  apply (cases "check_mp4_status (mp4_status_net w c) t")
  apply (cases "mp4_loop w t p m iv (Suc c)")
  apply (simp add: mp4_response_def mp4_urls_def)
  done

lemma mp4_loop_ended:
  "int c < m \<Longrightarrow> mp4_cycle w p (mp4_response w t c) = Ended r ev \<Longrightarrow>
   mp4_loop w t p m iv c = (r, Mp4_status_check (mp4_urls w t c) # ev)"
  apply (subst mp4_loop.simps)
  apply (cases "check_mp4_status (mp4_status_net w c) t")
  apply (cases "mp4_loop w t p m iv (Suc c)")
  apply (simp add: mp4_response_def mp4_urls_def)
  done



lemma download_music_loop_stop:
  "\<not> int n < m \<Longrightarrow> download_music_loop net u p m n = (False, [])"
  by (subst download_music_loop.simps) simp

lemma download_music_loop_done:
  "int n < m \<Longrightarrow> music_attempt net u p n = (True, ev) \<Longrightarrow>
   download_music_loop net u p m n = (True, ev)"
  by (subst download_music_loop.simps) simp

lemma download_music_loop_retry:
  "int n < m \<Longrightarrow> music_attempt net u p n = (False, ev) \<Longrightarrow>
   download_music_loop net u p m n =
     (fst (download_music_loop net u p m (Suc n)),
      ev @ [Sleep (2 ^ n)] @ snd (download_music_loop net u p m (Suc n)))"
  apply (subst download_music_loop.simps)
  apply (cases "download_music_loop net u p m (Suc n)")
  apply simp
  done




lemma download_mp4_loop_done:
  "int n < m \<Longrightarrow> mp4_attempt net u p n = (True, ev) \<Longrightarrow>
   download_mp4_loop net u p m n = (True, ev)"
  by (subst download_mp4_loop.simps) simp


















lemma audio_success_ending:
  "audio_success w t td p m iv g q = Ended r ev \<Longrightarrow> (\<exists>b. r = Download_result b) \<or> r = No_url"
  by (cases "download_music (audio_net w) (find_audio_url (JObj td)) p 5")
     (auto simp: audio_success_def Let_def split: if_splits)


lemma audio_cycle_ending:
  "audio_cycle w t p m iv g q td = Ended r ev \<Longrightarrow> r \<noteq> Exceeded_checks"
  by (auto simp: audio_cycle_def split: json.splits if_splits sum.splits
           dest!: audio_success_ending)


section \<open>What one status response does to a poller\<close>

lemma get_status_description_hashable:
  "hashable s \<Longrightarrow> \<exists>d. get_status_description s = Inr d"
  by (auto simp: get_status_description_def split: json.splits option.splits)




lemma pending_hashable: "s \<in> set pending_statuses \<Longrightarrow> hashable s"
  by (auto simp: pending_statuses_def)

lemma pending_not_terminal:
  "s \<in> set pending_statuses \<Longrightarrow> s \<notin> set success_statuses \<and> s \<notin> set failure_statuses"
  by (auto simp: pending_statuses_def failure_statuses_def success_statuses_def)

lemma audio_observed_cases:
  "audio_observed td = Some s \<Longrightarrow>
   \<exists>d. td = JObj d \<and> d \<noteq> [] \<and> \<not> audio_api_error d \<and> audio_status d = s"
  by (auto simp: audio_observed_def split: json.splits if_splits)

lemma audio_cycle_observed:
  "audio_observed td = Some s \<Longrightarrow> hashable s \<Longrightarrow>
   audio_cycle w t p m iv g q td =
     (if s \<in> set success_statuses
      then (case td of JObj d \<Rightarrow> audio_success w t d p m iv g q | _ \<Rightarrow> Again)
      else if s \<in> set failure_statuses then Ended Job_failed [] else Again)"
proof -
  assume o: "audio_observed td = Some s" and h: "hashable s"
  from audio_observed_cases[OF o] obtain d where
    d: "td = JObj d" "d \<noteq> []" "\<not> audio_api_error d" "audio_status d = s" by blast
  from get_status_description_hashable[OF h] obtain x where "get_status_description s = Inr x"
    by blast
  with d show ?thesis by (simp add: audio_cycle_def)
qed

lemma audio_cycle_unrecognized:
  "audio_observed td = Some s \<Longrightarrow> hashable s \<Longrightarrow> s \<notin> set success_statuses \<Longrightarrow>
   s \<notin> set failure_statuses \<Longrightarrow> audio_cycle w t p m iv g q td = Again"
  by (simp add: audio_cycle_observed)




lemma mp4_observed_cases:
  "mp4_observed td = Some s \<Longrightarrow>
   \<exists>d dat. td = JObj d \<and> d \<noteq> []
      \<and> \<not> (truthy (dict_get d ''code'') \<and> \<not> py_eq_int (dict_get d ''code'') 200)
      \<and> mp4_data d = JObj dat \<and> mp4_status dat = s"
  by (auto simp: mp4_observed_def split: json.splits if_splits)

lemma mp4_cycle_observed:
  "mp4_observed td = Some s \<Longrightarrow>
   mp4_cycle w p td =
     (if s \<in> set mp4_success_statuses
      then (case td of
              JObj d \<Rightarrow> (case mp4_data d of JObj dat \<Rightarrow> mp4_success w d dat p | _ \<Rightarrow> Again)
            | _ \<Rightarrow> Again)
      else if s \<in> set mp4_failure_statuses then Ended Job_failed [] else Again)"
proof -
  assume o: "mp4_observed td = Some s"
  from mp4_observed_cases[OF o] obtain d dat where
    d: "td = JObj d" "d \<noteq> []"
       "\<not> (truthy (dict_get d ''code'') \<and> \<not> py_eq_int (dict_get d ''code'') 200)"
       "mp4_data d = JObj dat" "mp4_status dat = s" by blast
  then show ?thesis by (auto simp: mp4_cycle_def)
qed


lemma mp4_cycle_unrecognized:
  "mp4_observed td = Some s \<Longrightarrow> s \<notin> set mp4_success_statuses \<Longrightarrow>
   s \<notin> set mp4_failure_statuses \<Longrightarrow> mp4_cycle w p td = Again"
  by (simp add: mp4_cycle_observed)




lemma status_checks_cycles:
  "status_checks (concat (map (\<lambda>i. [Status_check (f i), Sleep iv]) xs)) = length xs"
  by (induction xs) (auto simp: status_checks_def)


lemma status_checks_append: "status_checks (xs @ ys) = status_checks xs + status_checks ys"
  by (simp add: status_checks_def)

lemma mp4_status_checks_append:
  "mp4_status_checks (xs @ ys) = mp4_status_checks xs + mp4_status_checks ys"
  by (simp add: mp4_status_checks_def)





lemma monitor_loop_all_again:
  "(\<forall>i. c \<le> i \<and> int i < m \<longrightarrow> audio_cycle w t p m iv g q (audio_response w t i) = Again) \<Longrightarrow>
   monitor_loop w t p m iv g q c =
     (Exceeded_checks, concat (map (\<lambda>i. [Status_check (audio_urls w t i), Sleep iv]) [c..<nat m]))"
proof (induction "nat (m - int c)" arbitrary: c)
  case 0
  then have "\<not> int c < m" by simp
  moreover from this have "[c..<nat m] = []" by simp
  ultimately show ?case by (simp add: monitor_loop_stop)
next
  case (Suc n)
  then have lt: "int c < m" by linarith
  then have c: "c < nat m" by linarith
  have n: "n = nat (m - int (Suc c))" using Suc.hyps(2) by linarith
  have "monitor_loop w t p m iv g q (Suc c) =
     (Exceeded_checks, concat (map (\<lambda>i. [Status_check (audio_urls w t i), Sleep iv]) [Suc c..<nat m]))"
    using Suc.hyps(1)[OF n] Suc.prems by simp
  moreover have "audio_cycle w t p m iv g q (audio_response w t c) = Again"
    using Suc.prems lt by simp
  ultimately show ?case using lt c by (simp add: monitor_loop_again upt_conv_Cons)
qed

lemma scripted_audio_response:
  "audio_response (scripted a v) t c = a c"
  by (simp add: audio_response_def check_generation_status_def scripted_def silent_def)

lemma scripted_mp4_response:
  "mp4_response (scripted a v) t c = v c"
  by (simp add: mp4_response_def check_mp4_status_def mp4_endpoints_def scripted_def silent_def)

lemma audio_observed_status_doc: "audio_observed (status_doc s) = Some (JStr s)" if "s \<noteq> []"
  using that
  by (simp add: audio_observed_def status_doc_def audio_api_error_def audio_status_def
                dict_get_def dict_get_default_def)


lemma scripted_audio_urls:
  "audio_urls (scripted a v) t c = [primary_endpoint t]"
  by (simp add: audio_urls_def check_generation_status_def scripted_def silent_def)

lemma scripted_mp4_urls:
  "mp4_urls (scripted a v) t c = [hd (mp4_endpoints t)]"
  by (simp add: mp4_urls_def check_mp4_status_def mp4_endpoints_def scripted_def silent_def)

section \<open>Probe order of the extractor\<close>

text \<open>A direct key with a true value wins over every other probe; the probes under
  \<^verbatim>\<open>data\<close> win over the recursive search.\<close>

lemma direct_match_truthy:
  "direct_match keys obj = Some v \<Longrightarrow> truthy v \<and> (\<exists>k \<in> set keys. map_of obj k = Some v)"
  by (induction keys) (auto split: option.splits if_splits)

lemma find_field_top_level:
  "direct_match keys obj = Some v \<Longrightarrow> find_field keys dkey (JObj obj) = v"
  by simp

lemma find_field_data:
  "direct_match keys obj = None \<Longrightarrow> data_probe dkey obj = Some v \<Longrightarrow>
   find_field keys dkey (JObj obj) = v"
  by simp

lemma find_field_fallback:
  "direct_match keys obj = None \<Longrightarrow> data_probe dkey obj = None \<Longrightarrow>
   find_field keys dkey (JObj obj) = find_field_items keys dkey obj"
  by simp

lemma find_audio_url_top_level_wins:
  "map_of obj ''audioUrl'' = Some v \<Longrightarrow> truthy v \<Longrightarrow> find_audio_url (JObj obj) = v"
  by (simp add: find_audio_url_def audio_url_keys_def)

text \<open>
  Claim C1. The value returned is not always the first non-empty match in probe
  order: the probes under \<^verbatim>\<open>data\<close> return a key that is present even when its value is
  empty, so an empty \<^verbatim>\<open>data.audio_url\<close> hides the URL in \<^verbatim>\<open>data.results[0]\<close> (and an
  empty \<^verbatim>\<open>data.audioId\<close> the id there), while the direct keys and the recursive search
  skip empty values.
\<close>

theorem find_audio_url_returns_empty_data_value:
  "find_audio_url
     (JObj [(''data'', JObj [(''audio_url'', JStr []),
                            (''results'', JArr [JObj [(''audio_url'', JStr ''https://cdn.example/a.mp3'')]])])])
     = JStr []
   \<and> find_audio_id
     (JObj [(''data'', JObj [(''audioId'', JStr []),
                            (''results'', JArr [JObj [(''audioId'', JStr ''a1'')]])])])
     = JStr []"
  by (simp add: find_audio_url_def find_audio_id_def audio_url_keys_def audio_id_keys_def
                data_probe_def)

section \<open>Polling stops at a terminal status\<close>



section \<open>Pending on every cycle\<close>

text \<open>
  Claim C3. When the audio poller observes a pending status (\<^verbatim>\<open>PENDING\<close> or
  \<^verbatim>\<open>TEXT_SUCCESS\<close>) in every cycle that \<^verbatim>\<open>max_checks\<close> allows, the run is the write of
  the task id followed by one status check and one sleep per cycle, \<open>nat max_checks\<close>
  checks in all (\<^verbatim>\<open>max_checks\<close> itself when it is not negative), and it ends by exceeding
  its checks, which returns \<^verbatim>\<open>False\<close>: no download is attempted in any cycle.
\<close>

theorem pending_until_exhausted:
  assumes "\<forall>c. int c < max_checks \<longrightarrow>
             (\<exists>s \<in> set pending_statuses. audio_observed (audio_response w task_id c) = Some s)"
  shows "monitor_and_download w task_id output_path max_checks check_interval want_mp4
           mp4_output_path =
           (Exceeded_checks,
            Write_text ''last_task_id.txt'' task_id
            # concat (map (\<lambda>c. [Status_check (audio_urls w task_id c), Sleep check_interval])
                        [0..<nat max_checks]))
         \<and> status_checks (snd (monitor_and_download w task_id output_path max_checks
                                 check_interval want_mp4 mp4_output_path)) = nat max_checks
         \<and> returned (fst (monitor_and_download w task_id output_path max_checks
                             check_interval want_mp4 mp4_output_path)) = Some False"
proof -
  have again: "audio_cycle w task_id output_path max_checks check_interval want_mp4
                 mp4_output_path (audio_response w task_id c) = Again" if "int c < max_checks" for c
  proof -
    from assms that obtain s where s: "s \<in> set pending_statuses"
      and ob: "audio_observed (audio_response w task_id c) = Some s" by blast
    from audio_cycle_unrecognized[OF ob pending_hashable[OF s]] pending_not_terminal[OF s]
    show ?thesis by simp
  qed
  have run: "monitor_loop w task_id output_path max_checks check_interval want_mp4
               mp4_output_path 0 =
     (Exceeded_checks,
      concat (map (\<lambda>c. [Status_check (audio_urls w task_id c), Sleep check_interval])
                  [0..<nat max_checks]))"
    using again by (intro monitor_loop_all_again) simp
  show ?thesis
    using status_checks_cycles[of "audio_urls w task_id" check_interval "[0..<nat max_checks]"]
    by (simp add: monitor_and_download_def run status_checks_def)
qed

text \<open>Three checks allowed, \<^verbatim>\<open>PENDING\<close> each time.\<close>

theorem pending_until_exhausted_witness:
  "monitor_and_download (scripted (\<lambda>c. status_doc ''PENDING'') (\<lambda>c. JNull))
     ''t1'' ''out.mp3'' 3 10 False None
   = (Exceeded_checks,
      [Write_text ''last_task_id.txt'' ''t1'',
       Status_check [primary_endpoint ''t1''], Sleep 10,
       Status_check [primary_endpoint ''t1''], Sleep 10,
       Status_check [primary_endpoint ''t1''], Sleep 10])
   \<and> status_checks (snd (monitor_and_download (scripted (\<lambda>c. status_doc ''PENDING'') (\<lambda>c. JNull))
                          ''t1'' ''out.mp3'' 3 10 False None)) = 3"
proof -
  let ?w = "scripted (\<lambda>c. status_doc ''PENDING'') (\<lambda>c. JNull)"
  have h: "\<forall>c. int c < 3 \<longrightarrow>
             (\<exists>s \<in> set pending_statuses. audio_observed (audio_response ?w ''t1'' c) = Some s)"
    by (simp add: scripted_audio_response audio_observed_status_doc pending_statuses_def)
  have u: "audio_urls ?w ''t1'' c = [primary_endpoint ''t1'']" for c
    by (simp add: audio_urls_def check_generation_status_def scripted_def silent_def)
  have l: "[0..<3] = [0, 1, 2]" by (simp add: upt_rec)
  from pending_until_exhausted[OF h, of "''out.mp3''" 10 False None]
  show ?thesis by (simp add: u l status_checks_def)
qed

section \<open>A download that ends with an empty file\<close>

lemma music_attempt_starts:
  "\<exists>ev. snd (music_attempt net (JStr u) p n) = Get u # ev"
  by (auto simp: music_attempt_def stream_get_def split: download.splits)

lemma download_music_loop_starts:
  "int n < m \<Longrightarrow> \<exists>ev. snd (download_music_loop net (JStr u) p m n) = Get u # ev"
proof -
  assume lt: "int n < m"
  obtain ok ev1 where a: "music_attempt net (JStr u) p n = (ok, ev1)"
    by (cases "music_attempt net (JStr u) p n")
  from music_attempt_starts[of net u p n] a obtain ev where ev: "ev1 = Get u # ev" by auto
  show ?thesis
  proof (cases ok)
    case True
    with lt a ev show ?thesis by (simp add: download_music_loop_done)
  next
    case False
    with lt a ev show ?thesis by (simp add: download_music_loop_retry)
  qed
qed

text \<open>
  In \<^verbatim>\<open>download_music\<close> an attempt whose response passes \<^verbatim>\<open>raise_for_status\<close> and
  delivers no byte does not return: the loop sleeps and goes on to the next attempt,
  which requests the URL again while the retry bound allows one.
\<close>

lemma download_music_retries_empty_file:
  assumes "int n < max_retries" and "net n u = Streamed r"
    and "\<not> raises_for_status (http_status r)" and "concat (chunks r) = []"
  shows "fst (music_attempt net (JStr u) output_path n) = False"
    and "download_music_loop net (JStr u) output_path max_retries n
           = (fst (download_music_loop net (JStr u) output_path max_retries (Suc n)),
              snd (music_attempt net (JStr u) output_path n) @ [Sleep (2 ^ n)]
              @ snd (download_music_loop net (JStr u) output_path max_retries (Suc n)))"
    and "int (Suc n) < max_retries \<Longrightarrow>
         \<exists>ev. snd (download_music_loop net (JStr u) output_path max_retries (Suc n)) = Get u # ev"
proof -
  from assms show f: "fst (music_attempt net (JStr u) output_path n) = False"
    by (simp add: music_attempt_def stream_get_def)
  then have "music_attempt net (JStr u) output_path n
               = (False, snd (music_attempt net (JStr u) output_path n))"
    by (cases "music_attempt net (JStr u) output_path n") simp
  with assms(1) show "download_music_loop net (JStr u) output_path max_retries n
           = (fst (download_music_loop net (JStr u) output_path max_retries (Suc n)),
              snd (music_attempt net (JStr u) output_path n) @ [Sleep (2 ^ n)]
              @ snd (download_music_loop net (JStr u) output_path max_retries (Suc n)))"
    by (simp add: download_music_loop_retry)
  show "\<exists>ev. snd (download_music_loop net (JStr u) output_path max_retries (Suc n)) = Get u # ev"
    if "int (Suc n) < max_retries"
    using that by (rule download_music_loop_starts)
qed

text \<open>
  In \<^verbatim>\<open>download_mp4\<close> an attempt whose response passes \<^verbatim>\<open>raise_for_status\<close> and whose
  stream ends without an error returns \<^verbatim>\<open>True\<close> whatever was written.
\<close>

lemma download_mp4_returns_after_write:
  assumes "int n < max_retries" and "net n u = Streamed r"
    and "\<not> raises_for_status (http_status r)" and "\<not> interrupted r"
  shows "download_mp4_loop net (JStr u) output_path max_retries n
           = (True, [Get u, Write_bytes output_path (concat (chunks r))])"
proof -
  from assms have "mp4_attempt net (JStr u) output_path n
               = (True, [Get u, Write_bytes output_path (concat (chunks r))])"
    by (simp add: mp4_attempt_def stream_get_def)
  with assms(1) show ?thesis by (simp add: download_mp4_loop_done)
qed

text \<open>
  Claim C4. The video downloader does not treat an empty file as a failure: when the
  server answers 200 with an empty body, \<^verbatim>\<open>download_mp4\<close> writes the empty file and
  returns \<^verbatim>\<open>True\<close> after one request, where \<^verbatim>\<open>download_music\<close> on the same answers
  retries five times and returns \<^verbatim>\<open>False\<close>.
\<close>

theorem download_mp4_accepts_empty_file:
  "download_mp4 empty_body (JStr ''https://cdn.example/v.mp4'') ''out.mp4'' 5
     = (True, [Get ''https://cdn.example/v.mp4'', Write_bytes ''out.mp4'' []])
   \<and> fst (download_music empty_body (JStr ''https://cdn.example/a.mp3'') ''out.mp3'' 5) = False"
proof -
  have a: "music_attempt empty_body (JStr ''https://cdn.example/a.mp3'') ''out.mp3'' n
             = (False, [Get ''https://cdn.example/a.mp3'', Write_bytes ''out.mp3'' []])" for n
    by (simp add: music_attempt_def stream_get_def raises_for_status_def empty_body_def)
  have "fst (download_music_loop empty_body (JStr ''https://cdn.example/a.mp3'') ''out.mp3'' 5 0)
          = False"
    by (simp add: download_music_loop_retry[OF _ a] download_music_loop_stop)
  then show ?thesis
    by (simp add: download_mp4_def download_mp4_loop_done mp4_attempt_def stream_get_def
                  raises_for_status_def download_music_def empty_body_def)
qed

section \<open>Which endpoint answers a status check\<close>











section \<open>Application error codes in a status response\<close>

text \<open>
  Claim C6, as the code has it. The audio poller lets the code 404 pass: it goes on
  to the status of the response, and when that is no terminal status the cycle ends
  with the sleep and the next cycle follows. Every other code that is true and not
  200 (429 and 455 among them) ends the audio run with the failure result after that
  status check. The video poller makes no exception: every code that is true and not
  200, 404 included, ends its run with the failure result after that status check.
\<close>

theorem api_code_classification:
  "(int c < max_checks \<and> audio_response w task_id c = JObj td
      \<and> dict_get td ''code'' = JNum 404 \<and> hashable (audio_status td)
      \<and> audio_status td \<notin> set success_statuses \<union> set failure_statuses
     \<longrightarrow> monitor_loop w task_id output_path max_checks check_interval want_mp4 mp4_output_path c
           = (fst (monitor_loop w task_id output_path max_checks check_interval want_mp4
                     mp4_output_path (Suc c)),
              Status_check (audio_urls w task_id c) # Sleep check_interval
              # snd (monitor_loop w task_id output_path max_checks check_interval want_mp4
                       mp4_output_path (Suc c))))
   \<and> (int c < max_checks \<and> audio_response w task_id c = JObj td
      \<and> truthy (dict_get td ''code'') \<and> \<not> py_eq_int (dict_get td ''code'') 200
      \<and> \<not> py_eq_int (dict_get td ''code'') 404
     \<longrightarrow> monitor_loop w task_id output_path max_checks check_interval want_mp4 mp4_output_path c
           = (Api_error, [Status_check (audio_urls w task_id c)]))
   \<and> (int c < max_checks \<and> mp4_response w mp4_task_id c = JObj td'
      \<and> truthy (dict_get td' ''code'') \<and> \<not> py_eq_int (dict_get td' ''code'') 200
     \<longrightarrow> mp4_loop w mp4_task_id mp4_path max_checks check_interval c
           = (Api_error, [Mp4_status_check (mp4_urls w mp4_task_id c)]))"
proof (intro conjI impI)
  assume a: "int c < max_checks \<and> audio_response w task_id c = JObj td
      \<and> dict_get td ''code'' = JNum 404 \<and> hashable (audio_status td)
      \<and> audio_status td \<notin> set success_statuses \<union> set failure_statuses"
  then have "td \<noteq> []" by (auto simp: dict_get_def)
  with a have "audio_observed (audio_response w task_id c) = Some (audio_status td)"
    by (simp add: audio_observed_def audio_api_error_def)
  with a have "audio_cycle w task_id output_path max_checks check_interval want_mp4
                 mp4_output_path (audio_response w task_id c) = Again"
    by (intro audio_cycle_unrecognized) auto
  with a show "monitor_loop w task_id output_path max_checks check_interval want_mp4
                 mp4_output_path c
           = (fst (monitor_loop w task_id output_path max_checks check_interval want_mp4
                     mp4_output_path (Suc c)),
              Status_check (audio_urls w task_id c) # Sleep check_interval
              # snd (monitor_loop w task_id output_path max_checks check_interval want_mp4
                       mp4_output_path (Suc c)))"
    by (simp add: monitor_loop_again)
next
  assume a: "int c < max_checks \<and> audio_response w task_id c = JObj td
      \<and> truthy (dict_get td ''code'') \<and> \<not> py_eq_int (dict_get td ''code'') 200
      \<and> \<not> py_eq_int (dict_get td ''code'') 404"
  then have "td \<noteq> []" by (auto simp: dict_get_def)
  with a have "audio_cycle w task_id output_path max_checks check_interval want_mp4
                 mp4_output_path (audio_response w task_id c) = Ended Api_error []"
    by (simp add: audio_cycle_def audio_api_error_def)
  with a show "monitor_loop w task_id output_path max_checks check_interval want_mp4
                 mp4_output_path c = (Api_error, [Status_check (audio_urls w task_id c)])"
    by (simp add: monitor_loop_ended)
next
  assume a: "int c < max_checks \<and> mp4_response w mp4_task_id c = JObj td'
      \<and> truthy (dict_get td' ''code'') \<and> \<not> py_eq_int (dict_get td' ''code'') 200"
  then have "td' \<noteq> []" by (auto simp: dict_get_def)
  with a have "mp4_cycle w mp4_path (mp4_response w mp4_task_id c) = Ended Api_error []"
    by (simp add: mp4_cycle_def)
  with a show "mp4_loop w mp4_task_id mp4_path max_checks check_interval c
           = (Api_error, [Mp4_status_check (mp4_urls w mp4_task_id c)])"
    by (simp add: mp4_loop_ended)
qed

text \<open>The response \<^verbatim>\<open>{"code": 404, "msg": "not found"}\<close> in the first cycle of either
  poller, and \<^verbatim>\<open>{"code": 429}\<close> in the first cycle of the audio poller.\<close>

theorem api_code_classification_witness:
  "monitor_loop (scripted (\<lambda>c. JObj [(''code'', JNum 404), (''msg'', JStr ''not found'')])
                          (\<lambda>c. JObj [(''code'', JNum 404), (''msg'', JStr ''not found'')]))
       ''t1'' ''out.mp3'' 30 10 False None 0
     = (fst (monitor_loop (scripted (\<lambda>c. JObj [(''code'', JNum 404), (''msg'', JStr ''not found'')])
                                    (\<lambda>c. JObj [(''code'', JNum 404), (''msg'', JStr ''not found'')]))
               ''t1'' ''out.mp3'' 30 10 False None 1),
        Status_check [primary_endpoint ''t1''] # Sleep 10
        # snd (monitor_loop (scripted (\<lambda>c. JObj [(''code'', JNum 404), (''msg'', JStr ''not found'')])
                                      (\<lambda>c. JObj [(''code'', JNum 404), (''msg'', JStr ''not found'')]))
                 ''t1'' ''out.mp3'' 30 10 False None 1))
   \<and> monitor_loop (scripted (\<lambda>c. JObj [(''code'', JNum 429)]) (\<lambda>c. JNull))
       ''t1'' ''out.mp3'' 30 10 False None 0
     = (Api_error, [Status_check [primary_endpoint ''t1'']])
   \<and> mp4_loop (scripted (\<lambda>c. JObj [(''code'', JNum 404), (''msg'', JStr ''not found'')])
                        (\<lambda>c. JObj [(''code'', JNum 404), (''msg'', JStr ''not found'')]))
       ''v1'' ''out.mp4'' 30 10 0
     = (Api_error, [Mp4_status_check [hd (mp4_endpoints ''v1'')]])"
proof -
  let ?nf = "\<lambda>c::nat. JObj [(''code'', JNum 404), (''msg'', JStr ''not found'')]"
  let ?w = "scripted ?nf ?nf"
  let ?w' = "scripted (\<lambda>c. JObj [(''code'', JNum 429)]) (\<lambda>c. JNull)"
  have st: "audio_status [(''code'', JNum 404), (''msg'', JStr ''not found'')] = JNull"
    by (simp add: audio_status_def dict_get_def dict_get_default_def find_status_def)
  have 1: "int 0 < 30 \<and> audio_response ?w ''t1'' 0 = JObj [(''code'', JNum 404), (''msg'', JStr ''not found'')]
      \<and> dict_get [(''code'', JNum 404), (''msg'', JStr ''not found'')] ''code'' = JNum 404
      \<and> hashable (audio_status [(''code'', JNum 404), (''msg'', JStr ''not found'')])
      \<and> audio_status [(''code'', JNum 404), (''msg'', JStr ''not found'')]
          \<notin> set success_statuses \<union> set failure_statuses"
    by (simp add: scripted_audio_response st dict_get_def success_statuses_def failure_statuses_def)
  have 2: "int 0 < 30 \<and> audio_response ?w' ''t1'' 0 = JObj [(''code'', JNum 429)]
      \<and> truthy (dict_get [(''code'', JNum 429)] ''code'')
      \<and> \<not> py_eq_int (dict_get [(''code'', JNum 429)] ''code'') 200
      \<and> \<not> py_eq_int (dict_get [(''code'', JNum 429)] ''code'') 404"
    by (simp add: scripted_audio_response dict_get_def)
  have 3: "int 0 < 30 \<and> mp4_response ?w ''v1'' 0 = JObj [(''code'', JNum 404), (''msg'', JStr ''not found'')]
      \<and> truthy (dict_get [(''code'', JNum 404), (''msg'', JStr ''not found'')] ''code'')
      \<and> \<not> py_eq_int (dict_get [(''code'', JNum 404), (''msg'', JStr ''not found'')] ''code'') 200"
    by (simp add: scripted_mp4_response dict_get_def)
  from api_code_classification[of 0 30 ?w "''t1''" "[(''code'', JNum 404), (''msg'', JStr ''not found'')]"
         "''out.mp3''" 10 False None "''v1''" "[(''code'', JNum 404), (''msg'', JStr ''not found'')]"
         "''out.mp4''"] 1 3
  have a: "monitor_loop ?w ''t1'' ''out.mp3'' 30 10 False None 0
     = (fst (monitor_loop ?w ''t1'' ''out.mp3'' 30 10 False None 1),
        Status_check [primary_endpoint ''t1''] # Sleep 10
        # snd (monitor_loop ?w ''t1'' ''out.mp3'' 30 10 False None 1))"
    and c: "mp4_loop ?w ''v1'' ''out.mp4'' 30 10 0
     = (Api_error, [Mp4_status_check [hd (mp4_endpoints ''v1'')]])"
    by (simp_all add: scripted_audio_urls scripted_mp4_urls)
  from api_code_classification[of 0 30 ?w' "''t1''" "[(''code'', JNum 429)]"
         "''out.mp3''" 10 False None "''v1''" "[(''code'', JNum 429)]" "''out.mp4''"] 2
  have b: "monitor_loop ?w' ''t1'' ''out.mp3'' 30 10 False None 0
     = (Api_error, [Status_check [primary_endpoint ''t1'']])"
    by (simp add: scripted_audio_urls)
  from a b c show ?thesis by simp
qed

text \<open>The claim as stated fails for the video poller: the code 404 in its first status
  response ends the run with the failure result, twenty-nine checks unused.\<close>

theorem video_poller_stops_at_404:
  "monitor_and_download_mp4
     (answering (JObj [(''code'', JNum 404), (''msg'', JStr ''not found'')]))
     ''v1'' ''out.mp4'' 30 10
   = (Api_error,
      [Write_text ''last_mp4_task_id.txt'' ''v1'',
       Mp4_status_check [''https://apibox.erweima.ai/api/v1/mp4/record-info?taskId=v1'']])"
proof -
  let ?w = "answering (JObj [(''code'', JNum 404), (''msg'', JStr ''not found'')])"
  have "mp4_cycle ?w ''out.mp4'' (mp4_response ?w ''v1'' 0) = Ended Api_error []"
    by (simp add: answering_def scripted_mp4_response mp4_cycle_def dict_get_def)
  then have "mp4_loop ?w ''v1'' ''out.mp4'' 30 10 0
               = (Api_error, [Mp4_status_check (mp4_urls ?w ''v1'' 0)])"
    by (simp add: mp4_loop_ended)
  then show ?thesis
    by (simp add: monitor_and_download_mp4_def answering_def scripted_mp4_urls mp4_endpoints_def
                  SUNO_API_BASE_URL_def)
qed

section \<open>A status outside the vocabularies\<close>

text \<open>A status in none of the families makes the video poller go round again; the
  audio poller too when the status can be hashed (a str, a number, a bool or
  \<^verbatim>\<open>None\<close>).\<close>

lemma unrecognized_status_goes_round:
  "int c < max_checks \<Longrightarrow> audio_observed (audio_response w task_id c) = Some s \<Longrightarrow>
   hashable s \<Longrightarrow> s \<notin> set success_statuses \<union> set failure_statuses \<Longrightarrow>
   monitor_loop w task_id output_path max_checks check_interval want_mp4 mp4_output_path c
     = (fst (monitor_loop w task_id output_path max_checks check_interval want_mp4
               mp4_output_path (Suc c)),
        Status_check (audio_urls w task_id c) # Sleep check_interval
        # snd (monitor_loop w task_id output_path max_checks check_interval want_mp4
                 mp4_output_path (Suc c)))"
  by (simp add: monitor_loop_again audio_cycle_unrecognized)

lemma unrecognized_mp4_status_goes_round:
  "int c < max_checks \<Longrightarrow> mp4_observed (mp4_response w task_id c) = Some s \<Longrightarrow>
   s \<notin> set mp4_success_statuses \<union> set mp4_failure_statuses \<Longrightarrow>
   mp4_loop w task_id output_path max_checks check_interval c
     = (fst (mp4_loop w task_id output_path max_checks check_interval (Suc c)),
        Mp4_status_check (mp4_urls w task_id c) # Sleep check_interval
        # snd (mp4_loop w task_id output_path max_checks check_interval (Suc c)))"
  by (simp add: mp4_loop_again mp4_cycle_unrecognized)

text \<open>
  Claim C7. The audio poller does not treat every unrecognized status as pending: a
  status that is a JSON array or object is in no family, and
  \<^verbatim>\<open>get_status_description\<close> looks it up in \<^verbatim>\<open>SUNO_STATUS\<close> before the branch on the
  status, which raises \<^verbatim>\<open>TypeError\<close> (unhashable type). The run ends in that cycle with
  the exception instead of going on to the next cycle.
\<close>

theorem unhashable_status_ends_audio_run:
  "monitor_and_download
     (answering (JObj [(''code'', JNum 200),
                       (''data'', JObj [(''status'', JObj [(''state'', JStr ''queued'')])])]))
     ''t1'' ''out.mp3'' 30 10 False None
   = (Uncaught TypeError,
      [Write_text ''last_task_id.txt'' ''t1'',
       Status_check [''https://apibox.erweima.ai/api/v1/generate/record-info?taskId=t1'']])"
proof -
  let ?w = "answering (JObj [(''code'', JNum 200),
                             (''data'', JObj [(''status'', JObj [(''state'', JStr ''queued'')])])])"
  have "audio_cycle ?w ''t1'' ''out.mp3'' 30 10 False None (audio_response ?w ''t1'' 0)
          = Ended (Uncaught TypeError) []"
    by (simp add: answering_def scripted_audio_response audio_cycle_def audio_api_error_def
                  audio_status_def get_status_description_def dict_get_def dict_get_default_def)
  then have "monitor_loop ?w ''t1'' ''out.mp3'' 30 10 False None 0
               = (Uncaught TypeError, [Status_check (audio_urls ?w ''t1'' 0)])"
    by (simp add: monitor_loop_ended)
  then show ?thesis
    by (simp add: monitor_and_download_def answering_def scripted_audio_urls primary_endpoint_def
                  SUNO_API_BASE_URL_def)
qed

section \<open>When the audio task id is written\<close>




section \<open>Resuming a video task with no id on record\<close>

text \<open>
  Claim C9, as the code has it. With \<^verbatim>\<open>--check-mp4-task\<close> given bare and no file
  \<^verbatim>\<open>last_mp4_task_id.txt\<close>, \<^verbatim>\<open>main\<close> returns without doing anything to the outside: no
  request, no sleep, no file written. It returns at the message about the missing
  file when the two checks of the API keys before it pass (\<^verbatim>\<open>SUNO_API_KEY\<close> is set,
  and \<^verbatim>\<open>ANTHROPIC_API_KEY\<close> is set or \<^verbatim>\<open>--instrumental\<close> is given); otherwise it has
  returned before, at the message about the missing key.
\<close>

theorem check_mp4_task_without_file:
  assumes "arg_check_mp4_task a = Flag" and "files e ''last_mp4_task_id.txt'' = None"
  shows "snd (main e a) = []
         \<and> (getenv_truthy (suno_api_key e)
             \<and> (arg_instrumental a \<or> getenv_truthy (anthropic_api_key e))
            \<longrightarrow> fst (main e a) = No_mp4_task_file)
         \<and> (\<not> getenv_truthy (suno_api_key e) \<longrightarrow> fst (main e a) = No_suno_key)
         \<and> (getenv_truthy (suno_api_key e) \<and> \<not> arg_instrumental a
             \<and> \<not> getenv_truthy (anthropic_api_key e)
            \<longrightarrow> fst (main e a) = No_anthropic_key)"
  using assms by (auto simp: main_def Let_def)

text \<open>Both keys set, every other option at its default.\<close>

theorem check_mp4_task_without_file_witness:
  "main (offline (Some ''sk-suno'') (Some ''sk-ant'')) (default_args\<lparr>arg_check_mp4_task := Flag\<rparr>)
     = (No_mp4_task_file, [])"
proof -
  let ?e = "offline (Some ''sk-suno'') (Some ''sk-ant'')"
  let ?a = "default_args\<lparr>arg_check_mp4_task := Flag\<rparr>"
  have 1: "arg_check_mp4_task ?a = Flag" by simp
  have 2: "files ?e ''last_mp4_task_id.txt'' = None" by (simp add: offline_def)
  have 3: "getenv_truthy (suno_api_key ?e) \<and> getenv_truthy (anthropic_api_key ?e)"
    by (simp add: offline_def getenv_truthy_def)
  from check_mp4_task_without_file[OF 1 2] 3
  have "snd (main ?e ?a) = [] \<and> fst (main ?e ?a) = No_mp4_task_file" by simp
  then show ?thesis by (cases "main ?e ?a") simp
qed

text \<open>The claim as stated fails when \<^verbatim>\<open>SUNO_API_KEY\<close> is not set: the run ends at the
  message about the key, and the missing file is not reported.\<close>

theorem check_mp4_task_without_key:
  "main (offline None (Some ''sk-ant'')) (default_args\<lparr>arg_check_mp4_task := Flag\<rparr>)
     = (No_suno_key, [])"
  by (simp add: main_def offline_def getenv_truthy_def)

section \<open>What the video submission returns\<close>

text \<open>Whenever \<^verbatim>\<open>generate_mp4\<close> returns, the dict has a boolean \<^verbatim>\<open>success\<close> and a
  \<^verbatim>\<open>data\<close> key.\<close>

lemma map_of_dict_set:
  "map_of (dict_set k v d) k' = (if k' = k then Some v else map_of d k')"
proof (cases "map_of d k = None")
  case True
  then show ?thesis by (auto simp: dict_set_def map_add_def split: option.splits)
next
  case False
  have "map_of (map (\<lambda>(x, y). if x = k then (x, v) else (x, y)) d) k'
        = (if k' = k then (case map_of d k of None \<Rightarrow> None | Some y \<Rightarrow> Some v) else map_of d k')"
    by (induction d) auto
  with False show ?thesis by (auto simp: dict_set_def)
qed

lemma standardize_keys:
  "standardize j = Inr d \<Longrightarrow> map_of d ''success'' = Some (JBool True) \<and> map_of d ''data'' \<noteq> None"
  by (auto simp: standardize_def Let_def map_of_dict_set split: if_splits option.splits json.splits)

lemma failure_dict_keys:
  "map_of (failure_dict e c d) ''success'' = Some (JBool False)
   \<and> map_of (failure_dict e c d) ''data'' = Some d"
  by (simp add: failure_dict_def)

lemma generate_mp4_returned_dict:
  "fst (generate_mp4 post t a p) = Inr d \<Longrightarrow>
   (\<exists>b. map_of d ''success'' = Some (JBool b)) \<and> map_of d ''data'' \<noteq> None"
  using failure_dict_keys
  by (auto simp: generate_mp4_def Let_def
           split: reply.splits body.splits json.splits if_splits dest!: standardize_keys)

text \<open>
  Claim C10. \<^verbatim>\<open>generate_mp4\<close> does not return a dict on every path: a response with
  status 200 and application code 200 whose \<^verbatim>\<open>data\<close> is not a dict and whose task id
  stands at the root raises \<^verbatim>\<open>TypeError\<close> at \<^verbatim>\<open>resp_json["data"]["taskId"] = task_id\<close>,
  which the \<^verbatim>\<open>except RequestException\<close> clause does not catch.
\<close>

theorem generate_mp4_raises_type_error:
  "fst (generate_mp4
          (post_answers (JObj [(''code'', JNum 200), (''msg'', JStr ''success''),
                               (''data'', JNull), (''taskId'', JStr ''v1'')]))
          ''t1'' (JStr ''a1'') ''out.mp4'') = Inl TypeError"
  by (simp add: generate_mp4_def standardize_def dict_get_def dict_set_def Let_def
                post_answers_def)

end
